theory Spec2Isabelle
  imports Main "HOL-Library.Word"
begin

unbundle bit_operations_syntax

section \<open>Bytes, errors, byte sources and byte sinks\<close>

type_synonym byte = "8 word"
type_synonym uint32 = "32 word"

text \<open>
  The sentinel errors that ssz.go names (their declarations are in another file of the
  package; only their identity matters here, so each is a constructor).
\<close>

datatype sentinel = ErrShortOffset | ErrBadCouterOffset | ErrMaxItemsExceeded

text \<open>
  The arguments of a \<^verbatim>\<open>fmt.Errorf\<close> call after the sentinel: \<^verbatim>\<open>%d\<close> of an integer,
  \<^verbatim>\<open>%s\<close> of a string.
\<close>

datatype fmtarg = D int | S string

text \<open>
  Error values. \<open>EOF\<close> and \<open>ErrUnexpectedEOF\<close> are the two errors of Go's \<^verbatim>\<open>io\<close>
  package that \<^verbatim>\<open>io.ReadFull\<close> produces itself; \<open>IOError\<close> is any other error a byte
  source or sink reports. \<open>Errorf_w s args\<close> is \<^verbatim>\<open>fmt.Errorf("%w: ...", s, args)\<close>, an
  error that wraps the sentinel \<open>s\<close>; \<open>Errorf_s s args\<close> is
  \<^verbatim>\<open>fmt.Errorf("%s: ...", s, args)\<close>, whose message starts with the sentinel's text.
  \<open>BudgetExceeded\<close> is the error kind of the specification's taxonomy for a read
  beyond the byte budget, which ssz.go does not name.
\<close>

datatype error =
    EOF
  | ErrUnexpectedEOF
  | IOError string
  | Errorf_w sentinel "fmtarg list"
  | Errorf_s sentinel "fmtarg list"
  | BudgetExceeded

text \<open>
  An \<^verbatim>\<open>io.Reader\<close>: the bytes it will still deliver, and the error its \<^verbatim>\<open>Read\<close>
  reports once they are used up (\<open>EOF\<close> for an ordinary finite stream). Reading is the
  only effect on it, so a reader after a call is the reader before it with a shorter
  \<open>pending\<close>.
\<close>

record reader =
  pending :: "byte list"
  failure :: error

text \<open>
  \<^verbatim>\<open>io.ReadFull(r, buf)\<close> with \<^verbatim>\<open>len(buf) = n\<close>: exactly \<open>n\<close> bytes, or an error. When
  the source ends early the error is \<open>EOF\<close> if no byte was read and
  \<open>ErrUnexpectedEOF\<close> if some were; any other error of the source is passed on as it is.
  The bytes read before the error are consumed.
\<close>

definition ReadFull :: "reader \<Rightarrow> nat \<Rightarrow> (byte list \<times> error option) \<times> reader" where
  "ReadFull r n =
     (if n \<le> length (pending r)
      then ((take n (pending r), None), r\<lparr>pending := drop n (pending r)\<rparr>)
      else ((pending r,
             Some (if failure r = EOF \<and> pending r \<noteq> [] then ErrUnexpectedEOF else failure r)),
            r\<lparr>pending := []\<rparr>))"

text \<open>
  An \<^verbatim>\<open>io.Writer\<close>: the bytes it has accepted, how many more it accepts (\<open>None\<close>: any
  number), and the error it reports when it accepts no more. \<open>Write\<close> returns Go's pair
  of the number of bytes written and the error.
\<close>

record writer =
  written :: "byte list"
  room :: "nat option"
  refusal :: error

definition Write :: "writer \<Rightarrow> byte list \<Rightarrow> (nat \<times> error option) \<times> writer" where
  "Write w p =
     (case room w of
        None \<Rightarrow> ((length p, None), w\<lparr>written := written w @ p\<rparr>)
      | Some c \<Rightarrow>
          if length p \<le> c
          then ((length p, None), w\<lparr>written := written w @ p, room := Some (c - length p)\<rparr>)
          else ((c, Some (refusal w)), w\<lparr>written := written w @ take c p, room := Some 0\<rparr>))"

text \<open>
  \<^verbatim>\<open>binary.LittleEndian.Uint32(b)\<close>:
  \<^verbatim>\<open>uint32(b[0]) | uint32(b[1])<<8 | uint32(b[2])<<16 | uint32(b[3])<<24\<close>.
  Go panics on a slice shorter than 4; every caller here passes the 4 bytes that
  \<open>ReadFull\<close> has just delivered.
\<close>

definition Uint32 :: "byte list \<Rightarrow> uint32" where
  "Uint32 b =
     ucast (b ! 0) OR push_bit 8 (ucast (b ! 1)) OR push_bit 16 (ucast (b ! 2))
       OR push_bit 24 (ucast (b ! 3))"

section \<open>decodeSliceLength and DecodeSlice\<close>

text \<open>
  \<^verbatim>\<open>func decodeSliceLength(r io.Reader, limit int) (int, error)\<close>, ssz.go lines 87 to 106.
  The result is Go's pair of count and error, together with the reader as the call leaves
  it. \<open>limit\<close> is a Go \<^verbatim>\<open>int\<close>: it is only compared, and the count is at most \<open>2^30 - 1\<close>,
  so no operation on it can overflow and \<open>int\<close> is exact.
\<close>

definition decodeSliceLength :: "reader \<Rightarrow> int \<Rightarrow> (int \<times> error option) \<times> reader" where
  "decodeSliceLength r limit =
     (if limit = 0 then ((0, None), r)
      else if limit < 4 then ((0, Some (Errorf_w ErrShortOffset [D limit])), r)
      else
        (case ReadFull r 4 of
           ((offBuf, Some err), r') \<Rightarrow> ((0, Some err), r')
         | ((offBuf, None), r') \<Rightarrow>
             (let length = Uint32 offBuf in
              if length AND 0xff > 0
              then ((0, Some (Errorf_s ErrBadCouterOffset [D (uint length)])), r')
              else ((uint (drop_bit 2 length), None), r'))))"

text \<open>
  How a call of the DecodeSlice draft ends: at one of its two \<^verbatim>\<open>return\<close> statements,
  each of which returns an error, or at the end of the draft's text, which has no
  statement after \<^verbatim>\<open>offsets := make([]int, 0, items+1)\<close>.
\<close>

datatype slice_exit = ReturnErr error | EndOfDraft

text \<open>
  \<^verbatim>\<open>func DecodeSlice(r io.Reader, kind string, limit int, maxitems int) error\<close>, ssz.go
  lines 115 to 127: the count, the check against \<open>maxitems\<close>, and the allocation of
  the offsets slice, which nothing observes. The result is how the call ends, together
  with the reader as it is then.
\<close>

definition DecodeSlice :: "reader \<Rightarrow> string \<Rightarrow> int \<Rightarrow> int \<Rightarrow> slice_exit \<times> reader" where
  "DecodeSlice r kind limit maxitems =
     (case decodeSliceLength r limit of
        ((items, Some err), r1) \<Rightarrow> (ReturnErr err, r1)
      | ((items, None), r1) \<Rightarrow>
          if items > maxitems
          then (ReturnErr (Errorf_w ErrMaxItemsExceeded [S kind, D items, D maxitems]), r1)
          else (EndOfDraft, r1))"

section \<open>Contexts, the pools and the entry points\<close>

text \<open>
  Modelled from the spec: the Encoder and Decoder structs, whose declarations are not in
  ssz.go. Their fields are the ones Encode and Decode assign (\<^verbatim>\<open>enc.out\<close>,
  \<^verbatim>\<open>enc.err\<close>, \<^verbatim>\<open>dec.in\<close>, \<^verbatim>\<open>dec.length\<close>, \<^verbatim>\<open>dec.err\<close>), which are the components
  the specification's data model gives the two contexts. A sink or source field is
  \<open>None\<close> for Go's nil, as in a context fresh from \<^verbatim>\<open>new\<close>.
\<close>

record Encoder =
  out :: "writer option"
  err :: "error option"

record Decoder =
  in_dec :: "reader option"
  length_dec :: uint32
  err_dec :: "error option"

text \<open>
  How a capability method ends: it returns, or it panics; either way it leaves a state
  behind. A top-level call returns a value or propagates the panic.
\<close>

datatype 'a exit = Normal 'a | Panicked 'a

fun state :: "'a exit \<Rightarrow> 'a" where
  "state (Normal s) = s"
| "state (Panicked s) = s"

datatype 'a result = Returns 'a | Panics

definition returned :: "'a exit \<Rightarrow> ('a \<Rightarrow> error option) \<Rightarrow> error option result" where
  "returned x slot = (case x of Normal s \<Rightarrow> Returns (slot s) | Panicked s \<Rightarrow> Panics)"

text \<open>
  The \<^verbatim>\<open>Object\<close> interface, ssz.go lines 15 to 31: the method set of a type \<open>'v\<close>. The
  receiver is passed explicitly; \<open>DecodeSSZ\<close> returns the receiver as it has become.
\<close>

record 'v Object =
  StaticSSZ :: bool
  SizeSSZ :: "'v \<Rightarrow> uint32"
  EncodeSSZ :: "'v \<Rightarrow> Encoder \<Rightarrow> Encoder exit"
  DecodeSSZ :: "'v \<Rightarrow> Decoder \<Rightarrow> ('v \<times> Decoder) exit"

text \<open>
  \<^verbatim>\<open>sync.Pool\<close>: the items it holds. \<open>Get\<close> removes and returns an item of the pool's
  choosing, or makes a new one when the pool is empty or chooses to hand out none; the
  choice is the parameter \<open>pick\<close>. \<open>Put\<close> adds an item.
\<close>

type_synonym 'a pool = "'a list"

definition Get :: "'a \<Rightarrow> nat option \<Rightarrow> 'a pool \<Rightarrow> 'a \<times> 'a pool" where
  "Get new pick p =
     (case pick of
        None \<Rightarrow> (new, p)
      | Some i \<Rightarrow> if i < length p then (p ! i, take i p @ drop (Suc i) p) else (new, p))"

definition Put :: "'a \<Rightarrow> 'a pool \<Rightarrow> 'a pool" where
  "Put x p = x # p"

text \<open>\<^verbatim>\<open>new(Encoder)\<close> and \<^verbatim>\<open>new(Decoder)\<close>: Go's zero values.\<close>

definition new_Encoder :: Encoder where
  "new_Encoder = \<lparr>out = None, err = None\<rparr>"

definition new_Decoder :: Decoder where
  "new_Decoder = \<lparr>in_dec = None, length_dec = 0, err_dec = None\<rparr>"

text \<open>
  \<^verbatim>\<open>func Encode(w io.Writer, obj Object) error\<close>, ssz.go lines 58 to 65. The call
  yields what it returns, the sink as the call leaves it, and the pool after the deferred
  \<^verbatim>\<open>Put\<close>, which runs whether \<^verbatim>\<open>obj.EncodeSSZ\<close> returns or panics.
\<close>

definition Encode ::
  "nat option \<Rightarrow> Encoder pool \<Rightarrow> writer \<Rightarrow> 'v Object \<Rightarrow> 'v \<Rightarrow>
     error option result \<times> writer option \<times> Encoder pool"
where
  "Encode pick encoderPool w obj v =
     (let (enc, encoderPool) = Get new_Encoder pick encoderPool;
          enc = enc\<lparr>out := Some w, err := None\<rparr>
      in case EncodeSSZ obj v enc of
           Normal enc \<Rightarrow> (Returns (err enc), out enc, Put enc encoderPool)
         | Panicked enc \<Rightarrow> (Panics, out enc, Put enc encoderPool))"

text \<open>
  \<^verbatim>\<open>func Decode(r io.Reader, obj Object, size uint32) error\<close>, ssz.go lines 68 to 75. The
  call yields what it returns, the object and the source as the call leaves them, and
  the pool after the deferred \<^verbatim>\<open>Put\<close>.
\<close>

definition Decode ::
  "nat option \<Rightarrow> Decoder pool \<Rightarrow> reader \<Rightarrow> 'v Object \<Rightarrow> 'v \<Rightarrow> uint32 \<Rightarrow>
     error option result \<times> 'v \<times> reader option \<times> Decoder pool"
where
  "Decode pick decoderPool r obj v size' =
     (let (dec, decoderPool) = Get new_Decoder pick decoderPool;
          dec = dec\<lparr>in_dec := Some r, length_dec := size', err_dec := None\<rparr>
      in case DecodeSSZ obj v dec of
           Normal (v, dec) \<Rightarrow> (Returns (err_dec dec), v, in_dec dec, Put dec decoderPool)
         | Panicked (v, dec) \<Rightarrow> (Panics, v, in_dec dec, Put dec decoderPool))"

section \<open>The operations of the two contexts\<close>

text \<open>
  Modelled from the spec: what write-primitive serialises (section 4.2), a fixed-width
  scalar (\<open>Scalar n x\<close>: the value \<open>x\<close> in \<open>n\<close> bytes, little-endian; a value that
  does not fit is truncated, as a conversion to a Go unsigned integer is) or a byte blob.
\<close>

fun le_bytes :: "nat \<Rightarrow> nat \<Rightarrow> byte list" where
  "le_bytes 0 x = []"
| "le_bytes (Suc n) x = of_nat (x mod 256) # le_bytes n (x div 256)"

datatype primitive = Scalar nat nat | Blob "byte list"

fun wire :: "primitive \<Rightarrow> byte list" where
  "wire (Scalar n x) = le_bytes n x"
| "wire (Blob bs) = bs"

text \<open>
  Modelled from the spec: the Encoder's write-primitive operation (section 4.2), which is
  in a file of the package other than ssz.go. It serialises a fixed-width scalar
  (little-endian) or a fixed-size byte blob to the sink and captures the sink's error;
  after the first error every write is suppressed. On a context with no sink Go panics.
\<close>

definition write_primitive :: "primitive \<Rightarrow> Encoder \<Rightarrow> Encoder exit" where
  "write_primitive p enc =
     (if err enc \<noteq> None then Normal enc
      else case out enc of
             None \<Rightarrow> Panicked enc
           | Some w \<Rightarrow>
               (case Write w (wire p) of
                  ((n, e), w') \<Rightarrow> Normal (enc\<lparr>out := Some w', err := e\<rparr>)))"

text \<open>
  Modelled from the spec: the Decoder's primitive read (sections 3, 4.3 and 7), which is
  in a file of the package other than ssz.go. It reads exactly \<open>n\<close> bytes within the
  remaining budget, which it decrements; asking for more than the budget is the
  budget-exceeded error, a failure of the source is passed on, and either is captured in
  the error slot. After the first error nothing is read and nothing is delivered
  (\<open>None\<close>).
\<close>

definition read_primitive :: "nat \<Rightarrow> Decoder \<Rightarrow> (byte list option \<times> Decoder) exit" where
  "read_primitive n dec =
     (if err_dec dec \<noteq> None then Normal (None, dec)
      else if unat (length_dec dec) < n
      then Normal (None, dec\<lparr>err_dec := Some BudgetExceeded\<rparr>)
      else case in_dec dec of
             None \<Rightarrow> Panicked (None, dec)
           | Some r \<Rightarrow>
               (case ReadFull r n of
                  ((bs, Some e), r') \<Rightarrow>
                    Normal (None, dec\<lparr>in_dec := Some r', err_dec := Some e\<rparr>)
                | ((bs, None), r') \<Rightarrow>
                    Normal (Some bs,
                      dec\<lparr>in_dec := Some r', length_dec := length_dec dec - of_nat n\<rparr>)))"

text \<open>
  Modelled from the spec: an encode capability (section 4.1), built from the Encoder's
  operation: the primitives it writes, in order (writing a sub-object is writing its
  primitives in place).
\<close>

fun encode_all :: "primitive list \<Rightarrow> Encoder \<Rightarrow> Encoder exit" where
  "encode_all [] enc = Normal enc"
| "encode_all (p # ps) enc =
     (case write_primitive p enc of
        Normal enc' \<Rightarrow> encode_all ps enc'
      | Panicked enc' \<Rightarrow> Panicked enc')"

text \<open>
  Modelled from the spec: a decode capability (section 4.1), built from the Decoder's
  operation. \<open>Read n store k\<close> reads \<open>n\<close>
  bytes, stores them into the object with \<open>store\<close> (nothing is stored when nothing was
  read), and goes on with the program \<open>k\<close> chooses from the object as it now is, so that
  what is read next may depend on what was read before.
\<close>

datatype 'v dec_prog = Done | Read nat "byte list \<Rightarrow> 'v \<Rightarrow> 'v" "'v \<Rightarrow> 'v dec_prog"

primrec decode_run :: "'v dec_prog \<Rightarrow> 'v \<Rightarrow> Decoder \<Rightarrow> ('v \<times> Decoder) exit" where
  "decode_run Done v dec = Normal (v, dec)"
| "decode_run (Read n store k) v dec =
     (case read_primitive n dec of
        Normal (Some bs, dec') \<Rightarrow> decode_run (k (store bs v)) (store bs v) dec'
      | Normal (None, dec') \<Rightarrow> decode_run (k v) v dec'
      | Panicked (x, dec') \<Rightarrow> Panicked (v, dec'))"

text \<open>
  Modelled from the spec: one program after another, as one capability method.
\<close>

definition decode_then :: "'v dec_prog \<Rightarrow> 'v dec_prog \<Rightarrow> 'v \<Rightarrow> Decoder \<Rightarrow> ('v \<times> Decoder) exit" where
  "decode_then p q v dec =
     (case decode_run p v dec of
        Normal (v', dec') \<Rightarrow> decode_run q v' dec'
      | Panicked s \<Rightarrow> Panicked s)"

section \<open>Properties of decodeSliceLength\<close>

text \<open>
  C5. For every byte source, decodeSliceLength with limit 0 returns the count 0 and no
  error, and leaves the source as it was: no byte is consumed.
\<close>

theorem decodeSliceLength_limit_zero:
  "decodeSliceLength r 0 = ((0, None), r)"
  by (simp add: decodeSliceLength_def)

text \<open>
  C6. For every byte source, decodeSliceLength with a limit of 1, 2 or 3 fails with an
  error wrapping ErrShortOffset (and reads nothing).
\<close>

theorem decodeSliceLength_short_offset:
  assumes "0 < limit" and "limit < 4"
  shows "decodeSliceLength r limit = ((0, Some (Errorf_w ErrShortOffset [D limit])), r)"
  using assms by (simp add: decodeSliceLength_def)

theorem decodeSliceLength_short_offset_witness:
  "(0::int) < 3 \<and> (3::int) < 4 \<and>
   decodeSliceLength \<lparr>pending = [1, 2, 3], failure = EOF\<rparr> 3
     = ((0, Some (Errorf_w ErrShortOffset [D 3])), \<lparr>pending = [1, 2, 3], failure = EOF\<rparr>)"
  using decodeSliceLength_short_offset [of 3 "\<lparr>pending = [1, 2, 3], failure = EOF\<rparr>"]
  by simp

text \<open>
  C10. For every byte source holding at least 4 bytes and every limit of at least 4, if
  the first 4 bytes are the little-endian integer 0 then decodeSliceLength returns the
  count 0 with no error, and exactly those 4 bytes are consumed.
\<close>

theorem decodeSliceLength_zero_offset:
  assumes "4 \<le> length (pending r)" and "4 \<le> limit"
    and "Uint32 (take 4 (pending r)) = 0"
  shows "decodeSliceLength r limit = ((0, None), r\<lparr>pending := drop 4 (pending r)\<rparr>)"
  using assms by (simp add: decodeSliceLength_def ReadFull_def)

theorem decodeSliceLength_zero_offset_witness:
  "4 \<le> length (pending \<lparr>pending = [0, 0, 0, 0, 7], failure = EOF\<rparr>) \<and> (4::int) \<le> 5 \<and>
   Uint32 (take 4 (pending \<lparr>pending = [0, 0, 0, 0, 7], failure = EOF\<rparr>)) = 0 \<and>
   decodeSliceLength \<lparr>pending = [0, 0, 0, 0, 7], failure = EOF\<rparr> 5
     = ((0, None), \<lparr>pending = [7], failure = EOF\<rparr>)"
  using decodeSliceLength_zero_offset [of "\<lparr>pending = [0, 0, 0, 0, 7], failure = EOF\<rparr>" 5]
  by (simp add: Uint32_def)

text \<open>
  C1. The claim: with limit at least 4, decodeSliceLength fails with the malformed
  counter offset error exactly when the first offset is not divisible by 4, and otherwise
  returns the first offset divided by 4. The code tests the low byte of the offset
  (\<^verbatim>\<open>length&0xff > 0\<close>), not its low two bits: on the first offset 4, the offset table of
  a one-element list, it returns the malformed counter offset error instead of the count 1.
\<close>

theorem decodeSliceLength_offset_four:
  "decodeSliceLength \<lparr>pending = [4, 0, 0, 0], failure = EOF\<rparr> 4
     = ((0, Some (Errorf_s ErrBadCouterOffset [D 4])), \<lparr>pending = [], failure = EOF\<rparr>)"
  by (simp add: decodeSliceLength_def ReadFull_def Uint32_def)

section \<open>Properties of DecodeSlice\<close>

text \<open>
  C3. DecodeSlice takes the element count from decodeSliceLength; when the count exceeds
  maxitems it returns an error wrapping ErrMaxItemsExceeded that carries the count and
  the cap, and the source is left as decodeSliceLength left it: no further offset and no
  element is read.
\<close>

theorem DecodeSlice_max_items:
  assumes "decodeSliceLength r limit = ((items, None), r1)" and "maxitems < items"
  shows "DecodeSlice r kind limit maxitems
           = (ReturnErr (Errorf_w ErrMaxItemsExceeded [S kind, D items, D maxitems]), r1)"
  using assms by (simp add: DecodeSlice_def)

theorem DecodeSlice_max_items_witness:
  "decodeSliceLength \<lparr>pending = [0, 1, 0, 0, 9, 9], failure = EOF\<rparr> 6
     = ((64, None), \<lparr>pending = [9, 9], failure = EOF\<rparr>) \<and> (10::int) < 64 \<and>
   DecodeSlice \<lparr>pending = [0, 1, 0, 0, 9, 9], failure = EOF\<rparr> ''blobs'' 6 10
     = (ReturnErr (Errorf_w ErrMaxItemsExceeded [S ''blobs'', D 64, D 10]),
        \<lparr>pending = [9, 9], failure = EOF\<rparr>)"
proof -
  have len: "decodeSliceLength \<lparr>pending = [0, 1, 0, 0, 9, 9], failure = EOF\<rparr> 6
     = ((64, None), \<lparr>pending = [9, 9], failure = EOF\<rparr>)"
    by (simp add: decodeSliceLength_def ReadFull_def Uint32_def drop_bit_eq_div)
  show ?thesis
    using len DecodeSlice_max_items [OF len, of 10 "''blobs''"] by simp
qed



section \<open>Properties of the entry points\<close>

lemma bound_Encoder: "enc\<lparr>out := Some w, err := None\<rparr> = \<lparr>out = Some w, err = None\<rparr>"
  by (cases enc) simp

lemma bound_Decoder:
  "dec\<lparr>in_dec := Some r, length_dec := n, err_dec := None\<rparr>
     = \<lparr>in_dec = Some r, length_dec = n, err_dec = None\<rparr>"
  by (cases dec) simp

lemma Encode_unfold:
  "Encode pick encoderPool w obj v =
     (case EncodeSSZ obj v \<lparr>out = Some w, err = None\<rparr> of
        Normal enc \<Rightarrow> (Returns (err enc), out enc, Put enc (snd (Get new_Encoder pick encoderPool)))
      | Panicked enc \<Rightarrow> (Panics, out enc, Put enc (snd (Get new_Encoder pick encoderPool))))"
  by (auto simp: Encode_def bound_Encoder split: prod.splits exit.splits)

lemma Decode_unfold:
  "Decode pick decoderPool r obj v size' =
     (case DecodeSSZ obj v \<lparr>in_dec = Some r, length_dec = size', err_dec = None\<rparr> of
        Normal (v, dec) \<Rightarrow>
          (Returns (err_dec dec), v, in_dec dec, Put dec (snd (Get new_Decoder pick decoderPool)))
      | Panicked (v, dec) \<Rightarrow>
          (Panics, v, in_dec dec, Put dec (snd (Get new_Decoder pick decoderPool))))"
  by (auto simp: Decode_def bound_Decoder split: prod.splits exit.splits)

text \<open>
  C8. Whatever the pool holds and hands out, and whether the object's method returns
  with or without an error in the slot or panics, the context the method leaves behind
  is in the pool after the call: the pool is then that context followed by what \<open>Get\<close>
  left. And when the method returns, Encode and Decode return exactly the error slot of
  that context (\<open>None\<close>, Go's nil, when no error was captured).
\<close>

theorem entry_points_release:
  "(let x = EncodeSSZ obj v \<lparr>out = Some w, err = None\<rparr>;
        (res, sink, pool') = Encode pick encoderPool w obj v
    in pool' = state x # snd (Get new_Encoder pick encoderPool) \<and>
       state x \<in> set pool' \<and>
       res = returned x err) \<and>
   (let y = DecodeSSZ obj' v' \<lparr>in_dec = Some r, length_dec = size', err_dec = None\<rparr>;
        (res, v'', source, pool') = Decode pick' decoderPool r obj' v' size'
    in pool' = snd (state y) # snd (Get new_Decoder pick' decoderPool) \<and>
       snd (state y) \<in> set pool' \<and>
       res = returned y (err_dec \<circ> snd))"
  by (simp add: Encode_unfold Decode_unfold Put_def returned_def split: prod.splits exit.splits)

text \<open>
  C9. Whatever context the pool hands out, the object's encode method is invoked on the
  context whose sink is \<open>w\<close> and whose error slot is empty, and its decode method on the
  context whose source is \<open>r\<close>, whose budget is the caller's size and whose error slot is
  empty: what Encode and Decode return, and the sink, object and source they leave, are
  those of that invocation, so nothing of the pooled context's earlier contents is
  observable.
\<close>

theorem contexts_reset_before_use:
  "(let x = EncodeSSZ obj v \<lparr>out = Some w, err = None\<rparr>;
        (res, sink, pool') = Encode pick encoderPool w obj v
    in (res, sink) = (returned x err, out (state x))) \<and>
   (let y = DecodeSSZ obj' v' \<lparr>in_dec = Some r, length_dec = size', err_dec = None\<rparr>;
        (res, v'', source, pool') = Decode pick' decoderPool r obj' v' size'
    in (res, v'', source) = (returned y (err_dec \<circ> snd), fst (state y), in_dec (snd (state y))))"
  by (simp add: Encode_unfold Decode_unfold returned_def split: prod.splits exit.splits)

section \<open>The error latch\<close>

lemma write_primitive_latched: "err enc = Some e \<Longrightarrow> write_primitive p enc = Normal enc"
  by (simp add: write_primitive_def)

lemma read_primitive_latched:
  "err_dec dec = Some e \<Longrightarrow> read_primitive n dec = Normal (None, dec)"
  by (simp add: read_primitive_def)

lemma encode_all_latched: "err enc = Some e \<Longrightarrow> encode_all ps enc = Normal enc"
  by (induction ps) (simp_all add: write_primitive_latched)

lemma encode_all_append:
  "encode_all (ps @ qs) enc =
     (case encode_all ps enc of
        Normal enc' \<Rightarrow> encode_all qs enc'
      | Panicked enc' \<Rightarrow> Panicked enc')"
  by (induction ps arbitrary: enc) (simp_all split: exit.splits)

lemma decode_run_latched: "err_dec dec = Some e \<Longrightarrow> decode_run p v dec = Normal (v, dec)"
  by (induction p arbitrary: v) (simp_all add: read_primitive_latched)

text \<open>
  C7. Let an object's encode method write the primitives \<open>ps\<close> and then \<open>qs\<close>, and let
  an error \<open>e\<close> be in the slot once \<open>ps\<close> are written: then writing \<open>qs\<close> changes
  neither the slot nor the sink, and Encode returns \<open>e\<close>, normally. Likewise let an
  object's decode method run the program \<open>p\<close> and then \<open>q\<close>, with an error \<open>e'\<close> in the
  slot after \<open>p\<close>: then \<open>q\<close> changes neither the slot, the source, the budget nor the
  object, and Decode returns \<open>e'\<close>, normally.
\<close>

theorem error_latch:
  assumes "EncodeSSZ obj v = encode_all (ps @ qs)"
    and "encode_all ps \<lparr>out = Some w, err = None\<rparr> = Normal enc" and "err enc = Some e"
    and "DecodeSSZ obj' v' = decode_then p q v'"
    and "decode_run p v' \<lparr>in_dec = Some r, length_dec = size', err_dec = None\<rparr>
           = Normal (v'', dec)"
    and "err_dec dec = Some e'"
  shows "Encode pick encoderPool w obj v
           = (Returns (Some e), out enc, Put enc (snd (Get new_Encoder pick encoderPool))) \<and>
         Decode pick' decoderPool r obj' v' size'
           = (Returns (Some e'), v'', in_dec dec,
              Put dec (snd (Get new_Decoder pick' decoderPool)))"
  using assms
  by (simp add: Encode_unfold Decode_unfold decode_then_def encode_all_append
      encode_all_latched decode_run_latched)

theorem error_latch_witness:
  "Encode None [] \<lparr>written = [], room = Some 2, refusal = IOError ''sink full''\<rparr>
     \<lparr>StaticSSZ = True, SizeSSZ = (\<lambda>v. 4),
      EncodeSSZ = (\<lambda>v. encode_all ([Blob [1, 2, 3]] @ [Blob [4]])),
      DecodeSSZ = (\<lambda>v dec. Normal (v, dec))\<rparr> ()
     = (Returns (Some (IOError ''sink full'')),
        Some \<lparr>written = [1, 2], room = Some 0, refusal = IOError ''sink full''\<rparr>,
        [\<lparr>out = Some \<lparr>written = [1, 2], room = Some 0, refusal = IOError ''sink full''\<rparr>,
          err = Some (IOError ''sink full'')\<rparr>]) \<and>
   Decode None [] \<lparr>pending = [1, 2], failure = EOF\<rparr>
     \<lparr>StaticSSZ = True, SizeSSZ = (\<lambda>v. 5),
      EncodeSSZ = (\<lambda>v enc. Normal enc),
      DecodeSSZ = decode_then (Read 4 (\<lambda>bs v. bs) (\<lambda>v. Done)) (Read 1 (\<lambda>bs v. v @ bs) (\<lambda>v. Done))\<rparr>
     [] 5
     = (Returns (Some ErrUnexpectedEOF), [], Some \<lparr>pending = [], failure = EOF\<rparr>,
        [\<lparr>in_dec = Some \<lparr>pending = [], failure = EOF\<rparr>, length_dec = 5,
          err_dec = Some ErrUnexpectedEOF\<rparr>])"
  using error_latch [where obj = "\<lparr>StaticSSZ = True, SizeSSZ = (\<lambda>v. 4),
      EncodeSSZ = (\<lambda>v. encode_all ([Blob [1, 2, 3]] @ [Blob [4]])),
      DecodeSSZ = (\<lambda>v dec. Normal (v, dec))\<rparr>" and v = "()"
    and ps = "[Blob [1, 2, 3]]" and qs = "[Blob [4]]"
    and w = "\<lparr>written = [], room = Some 2, refusal = IOError ''sink full''\<rparr>"
    and enc = "\<lparr>out = Some \<lparr>written = [1, 2], room = Some 0, refusal = IOError ''sink full''\<rparr>,
          err = Some (IOError ''sink full'')\<rparr>"
    and e = "IOError ''sink full''"
    and obj' = "\<lparr>StaticSSZ = True, SizeSSZ = (\<lambda>v. 5),
      EncodeSSZ = (\<lambda>v enc. Normal enc),
      DecodeSSZ = decode_then (Read 4 (\<lambda>bs v. bs) (\<lambda>v. Done)) (Read 1 (\<lambda>bs v. v @ bs) (\<lambda>v. Done))\<rparr>"
    and v' = "[]" and p = "Read 4 (\<lambda>bs v. bs) (\<lambda>v. Done)"
    and q = "Read 1 (\<lambda>bs v. v @ bs) (\<lambda>v. Done)"
    and r = "\<lparr>pending = [1, 2], failure = EOF\<rparr>" and size' = 5 and v'' = "[]"
    and dec = "\<lparr>in_dec = Some \<lparr>pending = [], failure = EOF\<rparr>, length_dec = 5,
          err_dec = Some ErrUnexpectedEOF\<rparr>"
    and e' = ErrUnexpectedEOF and pick = None and encoderPool = "[]"
    and pick' = None and decoderPool = "[]"]
  by (simp add: write_primitive_def Write_def read_primitive_def ReadFull_def Get_def Put_def)

end
